theory Spec2Isabelle
  imports Complex_Main "HOL-Library.Multiset" "HOL-Library.List_Lexorder" "HOL-Library.Char_ord"
begin

section \<open>Python values: exceptions, console output, formatting\<close>

text \<open>
  An exception is its class together with \<open>str(e)\<close>. The loader itself raises
  \<open>FileNotFoundError\<close>, \<open>IndexError\<close> (indexing an empty list) and \<open>ValueError\<close>;
  \<open>LibraryError\<close> stands for the classes only the tabular library raises
  (\<open>ParserError\<close>, \<open>EmptyDataError\<close>, ...), named by the string.
\<close>

datatype exc_type = FileNotFoundError | IndexError | ValueError | LibraryError string

datatype py_exception = Exception exc_type string

fun exc_class :: "py_exception \<Rightarrow> exc_type" where
  "exc_class (Exception t m) = t"

fun exc_str :: "py_exception \<Rightarrow> string" where
  "exc_str (Exception t m) = m"

text \<open>
  A call that prints returns the lines it printed, in order, and then either the
  exception it raised (\<open>Inl\<close>) or its value (\<open>Inr\<close>).
\<close>

type_synonym 'a io = "string list \<times> (py_exception + 'a)"

definition digit_char :: "nat \<Rightarrow> char" where
  "digit_char d = ''0123456789'' ! d"

function str_nat :: "nat \<Rightarrow> string" where
  "str_nat n = (if n < 10 then [digit_char n] else str_nat (n div 10) @ [digit_char (n mod 10)])"
  by pat_completeness auto
termination
  by (relation "measure id") auto

declare str_nat.simps [simp del]

text \<open>\<open>str(i)\<close> and \<open>f"{i}"\<close> of a Python int.\<close>

definition str_int :: "int \<Rightarrow> string" where
  "str_int i = (if i < 0 then CHR ''-'' # str_nat (nat (- i)) else str_nat (nat i))"

fun join_comma :: "string list \<Rightarrow> string" where
  "join_comma [] = []"
| "join_comma [s] = s"
| "join_comma (s # t # ts) = s @ '', '' @ join_comma (t # ts)"

text \<open>\<open>f"{xs}"\<close> of a list of ints: \<open>[2019, 2020]\<close>.\<close>

definition str_int_list :: "int list \<Rightarrow> string" where
  "str_int_list xs = ''['' @ join_comma (map str_int xs) @ '']''"

definition pad3 :: "nat \<Rightarrow> string" where
  "pad3 m = [digit_char (m div 100), digit_char ((m div 10) mod 10), digit_char (m mod 10)]"

text \<open>The format \<open>{n:,}\<close>: decimal digits in groups of three.\<close>

function fmt_commas :: "nat \<Rightarrow> string" where
  "fmt_commas n = (if n < 1000 then str_nat n else fmt_commas (n div 1000) @ '','' @ pad3 (n mod 1000))"
  by pat_completeness auto
termination
  by (relation "measure id") auto

declare fmt_commas.simps [simp del]

definition fmt_commas_int :: "int \<Rightarrow> string" where
  "fmt_commas_int i = (if i < 0 then CHR ''-'' # fmt_commas (nat (- i)) else fmt_commas (nat i))"

section \<open>The file system\<close>

text \<open>
  A directory is the list of its regular files (name, bytes); the file system maps the
  path of a directory to it, \<open>None\<close> where no directory exists. A path is kept as
  the pair that \<open>data_dir / name\<close> joins. Directory paths are taken in the
  normal form \<open>pathlib\<close> prints; names are ASCII.
\<close>

type_synonym directory = "(string \<times> string) list"

type_synonym filesystem = "string \<Rightarrow> directory option"

record path =
  path_parent :: string
  path_name :: string

definition path_str :: "path \<Rightarrow> string" where
  "path_str p = path_parent p @ ''/'' @ path_name p"

definition read_bytes :: "filesystem \<Rightarrow> path \<Rightarrow> string option" where
  "read_bytes fs p = (case fs (path_parent p) of None \<Rightarrow> None | Some d \<Rightarrow> map_of d (path_name p))"

definition path_exists :: "filesystem \<Rightarrow> path \<Rightarrow> bool" where
  "path_exists fs p = (read_bytes fs p \<noteq> None)"

text \<open>
  The number of lines that iterating a file opened in text mode yields: a line ends at
  \<open>\n\<close>, \<open>\r\n\<close> or \<open>\r\<close> (universal newlines), and text after the last
  terminator is a line of its own. The bytes are taken to decode.
\<close>

fun num_lines :: "string \<Rightarrow> nat" where
  "num_lines [] = 0"
| "num_lines [c] = 1"
| "num_lines (c # d # cs) =
     (if c = CHR 0x0A then Suc (num_lines (d # cs))
      else if c = CHR 0x0D then (if d = CHR 0x0A then Suc (num_lines cs) else Suc (num_lines (d # cs)))
      else num_lines (d # cs))"

section \<open>Year files and the available years\<close>

text \<open>The glob pattern \<open>pre*suf\<close> on one file name.\<close>

definition glob_star :: "string \<Rightarrow> string \<Rightarrow> string \<Rightarrow> bool" where
  "glob_star pre suf n =
     (length pre + length suf \<le> length n \<and> take (length pre) n = pre
      \<and> drop (length n - length suf) n = suf)"

text \<open>\<open>PurePath.stem\<close>: the name without its last suffix.\<close>

definition rfind_dot :: "string \<Rightarrow> nat option" where
  "rfind_dot n =
     (let k = length (takeWhile (\<lambda>c. c \<noteq> CHR ''.'') (rev n))
      in if k = length n then None else Some (length n - 1 - k))"

definition stem :: "string \<Rightarrow> string" where
  "stem n = (case rfind_dot n of
      None \<Rightarrow> n
    | Some i \<Rightarrow> if 0 < i \<and> i < length n - 1 then take i n else n)"

text \<open>\<open>s.split(sep)\<close> with a one-character separator.\<close>

fun split_char :: "char \<Rightarrow> string \<Rightarrow> string list" where
  "split_char sep [] = [[]]"
| "split_char sep (c # cs) =
     (if c = sep then [] # split_char sep cs
      else (case split_char sep cs of [] \<Rightarrow> [[c]] | t # ts \<Rightarrow> (c # t) # ts))"

text \<open>
  \<open>int(s)\<close> on a string: surrounding whitespace is dropped, a sign may come first,
  decimal digits follow; \<open>None\<close> is the \<open>ValueError\<close>.
\<close>

definition is_py_space :: "char \<Rightarrow> bool" where
  "is_py_space c = (c \<in> set [CHR 0x09, CHR 0x0A, CHR 0x0B, CHR 0x0C, CHR 0x0D,
                               CHR 0x1C, CHR 0x1D, CHR 0x1E, CHR 0x1F, CHR 0x20])"

definition py_strip :: "string \<Rightarrow> string" where
  "py_strip s = rev (dropWhile is_py_space (rev (dropWhile is_py_space s)))"

definition digit_of :: "char \<Rightarrow> nat option" where
  "digit_of c = map_of (zip ''0123456789'' [0 ..< 10]) c"

fun digits_val :: "nat \<Rightarrow> string \<Rightarrow> nat option" where
  "digits_val acc [] = Some acc"
| "digits_val acc (c # cs) =
     (case digit_of c of None \<Rightarrow> None | Some d \<Rightarrow> digits_val (10 * acc + d) cs)"

definition py_int :: "string \<Rightarrow> int option" where
  "py_int s =
     (let t = py_strip s;
          neg = (t \<noteq> [] \<and> hd t = CHR ''-'');
          ds = (if t \<noteq> [] \<and> (hd t = CHR ''-'' \<or> hd t = CHR ''+'') then tl t else t)
      in if ds = [] then None
         else (case digits_val 0 ds of
                 None \<Rightarrow> None
               | Some n \<Rightarrow> Some (if neg then - int n else int n)))"

text \<open>
  The body of the loop of \<open>_get_available_years\<close>:
  \<open>int(f.stem.split('_')[1])\<close>, \<open>None\<close> when it raises \<open>IndexError\<close> or
  \<open>ValueError\<close> (the file is skipped).
\<close>

definition year_of_file :: "string \<Rightarrow> int option" where
  "year_of_file n =
     (let ts = split_char (CHR ''_'') (stem n)
      in if 1 < length ts then py_int (ts ! 1) else None)"

record OPTDataLoader =
  data_dir :: string
  available_years :: "int list"

definition get_available_years :: "filesystem \<Rightarrow> string \<Rightarrow> int list" where
  "get_available_years fs d =
     (case fs d of
        None \<Rightarrow> []
      | Some entries \<Rightarrow>
          (let csv_files = sort (filter (glob_star ''cleaned_'' ''_all.csv'') (map fst entries))
           in sort (List.map_filter year_of_file csv_files)))"

text \<open>
  \<open>OPTDataLoader.__init__\<close>. \<open>script_parent\<close> is \<open>Path(__file__).parent.parent\<close>.
\<close>

definition OPTDataLoader_init :: "filesystem \<Rightarrow> string \<Rightarrow> string option \<Rightarrow> py_exception + OPTDataLoader" where
  "OPTDataLoader_init fs script_parent dir_arg =
     (let d = (case dir_arg of None \<Rightarrow> script_parent @ ''/data/cleaned'' | Some p \<Rightarrow> p)
      in if fs d = None
         then Inl (Exception FileNotFoundError (''Data directory not found: '' @ d))
         else Inr \<lparr>data_dir = d, available_years = get_available_years fs d\<rparr>)"

definition year_file :: "OPTDataLoader \<Rightarrow> int \<Rightarrow> path" where
  "year_file ld year = \<lparr>path_parent = data_dir ld, path_name = ''cleaned_'' @ str_int year @ ''_all.csv''\<rparr>"

text \<open>The exception \<open>_get_file_path\<close> raises for a year.\<close>

definition no_data_file :: "OPTDataLoader \<Rightarrow> int \<Rightarrow> py_exception" where
  "no_data_file ld year =
     Exception FileNotFoundError
       (''No data file found for year '' @ str_int year @ ''. ''
        @ ''Available years: '' @ str_int_list (available_years ld))"

definition get_file_path :: "filesystem \<Rightarrow> OPTDataLoader \<Rightarrow> int \<Rightarrow> py_exception + path" where
  "get_file_path fs ld year =
     (let file_path = year_file ld year
      in if \<not> path_exists fs file_path
         then Inl (no_data_file ld year)
         else Inr file_path)"

section \<open>Tables and the tabular library\<close>

text \<open>
  A table (\<open>DataFrame\<close>) is its column names and its rows in order, each row with its
  index label. Column types are not part of the model.
\<close>

record 'v DataFrame =
  df_columns :: "string list"
  df_rows :: "(nat \<times> 'v list) list"

text \<open>\<open>len(df)\<close>.\<close>

definition df_len :: "'v DataFrame \<Rightarrow> nat" where
  "df_len df = length (df_rows df)"

text \<open>
  Selecting rows by a boolean mask computed row by row, \<open>df[mask]\<close>: the rows for
  which the predicate holds, with their labels, in order.
\<close>

definition df_select :: "('v list \<Rightarrow> bool) \<Rightarrow> 'v DataFrame \<Rightarrow> 'v DataFrame" where
  "df_select p df = df\<lparr>df_rows := filter (\<lambda>(i, r). p r) (df_rows df)\<rparr>"

text \<open>The \<open>dtype\<close> argument: a dict from column name to type name.\<close>

type_synonym dtype = "(string \<times> string) list"

text \<open>
  The calls into the tabular library, as parameters. Each takes the bytes of the file
  it reads.
  \<^item> \<open>pd_read_csv content usecols nrows dtype\<close> is
    \<open>read_csv(path, usecols=, nrows=, dtype=, low_memory=False)\<close>;
  \<^item> \<open>pd_read_csv_chunks content usecols chunksize dtype\<close> is the iteration of
    \<open>read_csv(path, usecols=, chunksize=, dtype=, low_memory=False)\<close> to its end: the
    chunks it yields, and the exception that ends it, if one does;
  \<^item> \<open>pd_concat dfs\<close> is \<open>concat(dfs, ignore_index=True)\<close>;
  \<^item> \<open>df_sample df n seed\<close> is \<open>df.sample(n=n, random_state=seed)\<close>.
\<close>

record 'v pandas =
  pd_read_csv :: "string \<Rightarrow> string list option \<Rightarrow> int option \<Rightarrow> dtype option \<Rightarrow> py_exception + 'v DataFrame"
  pd_read_csv_chunks :: "string \<Rightarrow> string list option \<Rightarrow> int \<Rightarrow> dtype option \<Rightarrow> 'v DataFrame list \<times> py_exception option"
  pd_concat :: "'v DataFrame list \<Rightarrow> py_exception + 'v DataFrame"
  df_sample :: "'v DataFrame \<Rightarrow> int \<Rightarrow> int \<Rightarrow> py_exception + 'v DataFrame"

text \<open>The library opens the path it is given.\<close>

definition no_such_file :: "path \<Rightarrow> py_exception" where
  "no_such_file p = Exception FileNotFoundError (''[Errno 2] No such file or directory: '' @ path_str p)"

definition read_csv :: "'v pandas \<Rightarrow> filesystem \<Rightarrow> path \<Rightarrow> string list option \<Rightarrow> int option \<Rightarrow> dtype option \<Rightarrow> py_exception + 'v DataFrame" where
  "read_csv pd fs p usecols nrows dt =
     (case read_bytes fs p of
        None \<Rightarrow> Inl (no_such_file p)
      | Some content \<Rightarrow> pd_read_csv pd content usecols nrows dt)"

definition read_csv_chunks :: "'v pandas \<Rightarrow> filesystem \<Rightarrow> path \<Rightarrow> string list option \<Rightarrow> int \<Rightarrow> dtype option \<Rightarrow> 'v DataFrame list \<times> py_exception option" where
  "read_csv_chunks pd fs p usecols chunksize dt =
     (case read_bytes fs p of
        None \<Rightarrow> ([], Some (no_such_file p))
      | Some content \<Rightarrow> pd_read_csv_chunks pd content usecols chunksize dt)"

section \<open>The loader's operations\<close>

text \<open>A filter function takes a table and returns a table, or raises.\<close>

type_synonym 'v filter_func = "'v DataFrame \<Rightarrow> py_exception + 'v DataFrame"

definition apply_filter :: "'v filter_func option \<Rightarrow> 'v DataFrame \<Rightarrow> py_exception + 'v DataFrame" where
  "apply_filter filter_func df = (case filter_func of None \<Rightarrow> Inr df | Some f \<Rightarrow> f df)"

definition load_year :: "'v pandas \<Rightarrow> filesystem \<Rightarrow> OPTDataLoader \<Rightarrow> int \<Rightarrow> string list option \<Rightarrow> 'v filter_func option \<Rightarrow> int option \<Rightarrow> dtype option \<Rightarrow> 'v DataFrame io" where
  "load_year pd fs ld year cols filter_func nrows dt =
     (case get_file_path fs ld year of
        Inl e \<Rightarrow> ([], Inl e)
      | Inr file_path \<Rightarrow>
          (let out = [''Loading '' @ str_int year @ '' from '' @ path_name file_path @ ''...'']
           in case read_csv pd fs file_path cols nrows dt of
                Inl e \<Rightarrow> (out, Inl e)
              | Inr df0 \<Rightarrow>
                  (case apply_filter filter_func df0 of
                     Inl e \<Rightarrow> (out, Inl e)
                   | Inr df \<Rightarrow>
                       (out @ [''  Loaded '' @ fmt_commas (df_len df) @ '' rows, ''
                               @ str_nat (length (df_columns df)) @ '' columns''],
                        Inr df))))"

text \<open>The loop of the sequential branch of \<open>load_years\<close>: it stops at the first year that raises.\<close>

fun load_each :: "'v pandas \<Rightarrow> filesystem \<Rightarrow> OPTDataLoader \<Rightarrow> string list option \<Rightarrow> 'v filter_func option \<Rightarrow> dtype option \<Rightarrow> int list \<Rightarrow> 'v DataFrame list io" where
  "load_each pd fs ld cols filter_func dt [] = ([], Inr [])"
| "load_each pd fs ld cols filter_func dt (year # years) =
     (case load_year pd fs ld year cols filter_func None dt of
        (out, Inl e) \<Rightarrow> (out, Inl e)
      | (out, Inr df) \<Rightarrow>
          (case load_each pd fs ld cols filter_func dt years of
             (out', Inl e) \<Rightarrow> (out @ out', Inl e)
           | (out', Inr dfs) \<Rightarrow> (out @ out', Inr (df # dfs))))"

text \<open>\<open>result = pd.concat(dfs, ignore_index=True)\<close> and the line that reports its length.\<close>

definition concat_report :: "'v pandas \<Rightarrow> 'v DataFrame list \<Rightarrow> 'v DataFrame io" where
  "concat_report pd dfs =
     (case pd_concat pd dfs of
        Inl e \<Rightarrow> ([], Inl e)
      | Inr result \<Rightarrow> ([''Combined total: '' @ fmt_commas (df_len result) @ '' rows''], Inr result))"

text \<open>\<open>_load_year_worker\<close>, the function a worker process runs.\<close>

definition load_year_worker :: "'v pandas \<Rightarrow> filesystem \<Rightarrow> path \<Rightarrow> int \<Rightarrow> string list option \<Rightarrow> 'v filter_func option \<Rightarrow> dtype option \<Rightarrow> 'v DataFrame io" where
  "load_year_worker pd fs file_path year cols filter_func dt =
     (let out = [''Loading '' @ str_int year @ ''...'']
      in case read_csv pd fs file_path cols None dt of
           Inl e \<Rightarrow> (out, Inl e)
         | Inr df0 \<Rightarrow>
             (case apply_filter filter_func df0 of
                Inl e \<Rightarrow> (out, Inl e)
              | Inr df \<Rightarrow>
                  (out @ [''  Loaded '' @ str_int year @ '': '' @ fmt_commas (df_len df) @ '' rows''],
                   Inr df)))"

text \<open>
  The process pool: the number of processing units, and the order in which the
  submitted jobs complete, as positions in the order of submission (each job
  completes once). The arguments of
  a job are taken to cross the process boundary, and what a worker prints is not part
  of what the parent prints.
\<close>

record pool =
  cpu_count :: nat
  completion_order :: "nat list"

text \<open>
  The dict comprehension that submits one job per year: \<open>_get_file_path\<close> is
  evaluated for each year in turn and the first that raises ends the submission.
\<close>

fun submit_all :: "filesystem \<Rightarrow> OPTDataLoader \<Rightarrow> int list \<Rightarrow> py_exception + (path \<times> int) list" where
  "submit_all fs ld [] = Inr []"
| "submit_all fs ld (year # years) =
     (case get_file_path fs ld year of
        Inl e \<Rightarrow> Inl e
      | Inr p \<Rightarrow> (case submit_all fs ld years of Inl e \<Rightarrow> Inl e | Inr jobs \<Rightarrow> Inr ((p, year) # jobs)))"

text \<open>\<open>as_completed\<close>: the futures in the order of completion.\<close>

definition as_completed :: "nat list \<Rightarrow> 'a list \<Rightarrow> 'a list" where
  "as_completed order futures =
     List.map_filter (\<lambda>i. if i < length futures then Some (futures ! i) else None) order"

text \<open>
  The loop over the completed futures, each the year and what \<open>future.result()\<close>
  gives: a result is appended, an exception is reported and raised again.
\<close>

fun collect_results :: "(int \<times> (py_exception + 'v DataFrame)) list \<Rightarrow> 'v DataFrame list io" where
  "collect_results [] = ([], Inr [])"
| "collect_results ((year, r) # rest) =
     (case r of
        Inl e \<Rightarrow> ([''Error loading year '' @ str_int year @ '': '' @ exc_str e], Inl e)
      | Inr df \<Rightarrow>
          (case collect_results rest of
             (out, Inl e) \<Rightarrow> (out, Inl e)
           | (out, Inr dfs) \<Rightarrow> (out, Inr (df # dfs))))"

definition load_years_parallel :: "'v pandas \<Rightarrow> pool \<Rightarrow> filesystem \<Rightarrow> OPTDataLoader \<Rightarrow> int list \<Rightarrow> string list option \<Rightarrow> 'v filter_func option \<Rightarrow> dtype option \<Rightarrow> 'v DataFrame io" where
  "load_years_parallel pd pl fs ld years cols filter_func dt =
     (let max_workers = min (length years) (cpu_count pl)
      in if max_workers = 0
         then ([], Inl (Exception ValueError ''max_workers must be greater than 0''))
         else (case submit_all fs ld years of
                 Inl e \<Rightarrow> ([], Inl e)
               | Inr jobs \<Rightarrow>
                   (let futures = map (\<lambda>(p, year). (year, snd (load_year_worker pd fs p year cols filter_func dt))) jobs
                    in case collect_results (as_completed (completion_order pl) futures) of
                         (out, Inl e) \<Rightarrow> (out, Inl e)
                       | (out, Inr dfs) \<Rightarrow>
                           (case concat_report pd dfs of (out', r) \<Rightarrow> (out @ out', r)))))"

definition load_years :: "'v pandas \<Rightarrow> pool \<Rightarrow> filesystem \<Rightarrow> OPTDataLoader \<Rightarrow> int list \<Rightarrow> string list option \<Rightarrow> 'v filter_func option \<Rightarrow> bool \<Rightarrow> dtype option \<Rightarrow> 'v DataFrame io" where
  "load_years pd pl fs ld years cols filter_func parallel dt =
     (if parallel \<and> 1 < length years
      then (case load_years_parallel pd pl fs ld years cols filter_func dt of
              (out, r) \<Rightarrow> ((''Loading '' @ str_nat (length years) @ '' years in parallel...'') # out, r))
      else (let out0 = [''Loading '' @ str_nat (length years) @ '' years sequentially...'']
            in case load_each pd fs ld cols filter_func dt years of
                 (out, Inl e) \<Rightarrow> (out0 @ out, Inl e)
               | (out, Inr dfs) \<Rightarrow>
                   (case concat_report pd dfs of (out', r) \<Rightarrow> (out0 @ out @ out', r))))"

definition load_all :: "'v pandas \<Rightarrow> pool \<Rightarrow> filesystem \<Rightarrow> OPTDataLoader \<Rightarrow> string list option \<Rightarrow> 'v filter_func option \<Rightarrow> bool \<Rightarrow> dtype option \<Rightarrow> 'v DataFrame io" where
  "load_all pd pl fs ld cols filter_func parallel dt =
     load_years pd pl fs ld (available_years ld) cols filter_func parallel dt"

text \<open>
  \<open>iter_year_chunks\<close> is a generator: the call itself runs nothing. Its value here is
  the run of the generator to its end: the lines printed, the chunks yielded in order,
  and the exception that ends the iteration (\<open>None\<close> when it is exhausted).
\<close>

definition iter_year_chunks :: "'v pandas \<Rightarrow> filesystem \<Rightarrow> OPTDataLoader \<Rightarrow> int \<Rightarrow> int \<Rightarrow> string list option \<Rightarrow> dtype option \<Rightarrow> string list \<times> 'v DataFrame list \<times> py_exception option" where
  "iter_year_chunks pd fs ld year chunksize cols dt =
     (case get_file_path fs ld year of
        Inl e \<Rightarrow> ([], [], Some e)
      | Inr file_path \<Rightarrow>
          ([''Iterating through '' @ str_int year @ '' in chunks of '' @ fmt_commas_int chunksize @ '' rows...''],
           read_csv_chunks pd fs file_path cols chunksize dt))"

definition get_column_names :: "'v pandas \<Rightarrow> filesystem \<Rightarrow> OPTDataLoader \<Rightarrow> int option \<Rightarrow> py_exception + string list" where
  "get_column_names pd fs ld year_arg =
     (case (case year_arg of
              None \<Rightarrow> (if available_years ld = []
                        then Inl (Exception IndexError ''list index out of range'')
                        else Inr (last (available_years ld)))
            | Some y \<Rightarrow> Inr y) of
        Inl e \<Rightarrow> Inl e
      | Inr year \<Rightarrow>
          (case get_file_path fs ld year of
             Inl e \<Rightarrow> Inl e
           | Inr file_path \<Rightarrow>
               (case read_csv pd fs file_path None (Some 0) None of
                  Inl e \<Rightarrow> Inl e
                | Inr df \<Rightarrow> Inr (df_columns df))))"

definition sample_year :: "'v pandas \<Rightarrow> filesystem \<Rightarrow> OPTDataLoader \<Rightarrow> int \<Rightarrow> int \<Rightarrow> string list option \<Rightarrow> 'v DataFrame io" where
  "sample_year pd fs ld year n cols =
     (case get_file_path fs ld year of
        Inl e \<Rightarrow> ([], Inl e)
      | Inr file_path \<Rightarrow>
          (let out = [''Sampling '' @ str_int n @ '' rows from '' @ str_int year @ ''...'']
           in case read_csv pd fs file_path cols None None of
                Inl e \<Rightarrow> (out, Inl e)
              | Inr df \<Rightarrow>
                  (case (if n < int (df_len df) then df_sample pd df n 42 else Inr df) of
                     Inl e \<Rightarrow> (out, Inl e)
                   | Inr sample \<Rightarrow>
                       (out @ [''  Sampled '' @ fmt_commas (df_len sample) @ '' rows''], Inr sample))))"

text \<open>
  \<open>round(x, 2)\<close> of \<open>x = a / b\<close>, in hundredths: the nearest integer to \<open>100 * a / b\<close>,
  a tie going to the even one. The float the code returns is the one nearest to that
  many hundredths.
\<close>

definition round_hundredths :: "nat \<Rightarrow> nat \<Rightarrow> nat" where
  "round_hundredths a b =
     (let q = (100 * a) div b; r = (100 * a) mod b
      in if 2 * r < b then q else if b < 2 * r then Suc q else if even q then q else Suc q)"

record year_info =
  info_year :: int
  info_file_path :: string
  info_file_size_mb :: rat
  info_estimated_rows :: int
  info_columns :: nat

definition get_year_info :: "'v pandas \<Rightarrow> filesystem \<Rightarrow> OPTDataLoader \<Rightarrow> int \<Rightarrow> py_exception + year_info" where
  "get_year_info pd fs ld year =
     (case get_file_path fs ld year of
        Inl e \<Rightarrow> Inl e
      | Inr file_path \<Rightarrow>
          (case read_bytes fs file_path of
             None \<Rightarrow> Inl (no_such_file file_path)
           | Some content \<Rightarrow>
               (let st_size = length content;
                    nrows = int (num_lines content) - 1
                in case get_column_names pd fs ld (Some year) of
                     Inl e \<Rightarrow> Inl e
                   | Inr names \<Rightarrow>
                       Inr \<lparr>info_year = year,
                            info_file_path = path_str file_path,
                            info_file_size_mb = of_nat (round_hundredths st_size (1024 * 1024)) / 100,
                            info_estimated_rows = nrows,
                            info_columns = length names\<rparr>)))"

text \<open>
  The \<open>years\<close> argument of \<open>quick_load\<close>: a string, an int, a list of ints, or a value
  of another shape (a float, \<open>None\<close>, a tuple).
\<close>

datatype years_arg = PyStr string | PyInt int | PyList "int list" | PyFloat rat | PyNone | PyTuple "int list"

definition quick_load :: "'v pandas \<Rightarrow> pool \<Rightarrow> filesystem \<Rightarrow> string \<Rightarrow> years_arg \<Rightarrow> string list option \<Rightarrow> 'v filter_func option \<Rightarrow> string option \<Rightarrow> 'v DataFrame io" where
  "quick_load pd pl fs script_parent years cols filter_func dir_arg =
     (case OPTDataLoader_init fs script_parent dir_arg of
        Inl e \<Rightarrow> ([], Inl e)
      | Inr loader \<Rightarrow>
          (if years = PyStr ''all'' then load_all pd pl fs loader cols filter_func True None
           else (case years of
                   PyInt y \<Rightarrow> load_year pd fs loader y cols filter_func None None
                 | PyList ys \<Rightarrow> load_years pd pl fs loader ys cols filter_func True None
                 | _ \<Rightarrow> ([], Inl (Exception ValueError (''years must be an int, list of ints, or '' @ [CHR 0x27] @ ''all'' @ [CHR 0x27]))))))"

section \<open>Contracts of the tabular library\<close>

text \<open>
  The consecutive blocks of \<open>k\<close> rows of a table, the last one holding what is left;
  a table of at most \<open>k\<close> rows is one block.
\<close>

function df_chunks :: "nat \<Rightarrow> 'v DataFrame \<Rightarrow> 'v DataFrame list" where
  "df_chunks k df =
     (if k = 0 \<or> df_len df \<le> k then [df]
      else df\<lparr>df_rows := take k (df_rows df)\<rparr> # df_chunks k (df\<lparr>df_rows := drop k (df_rows df)\<rparr>))"
  by pat_completeness auto
termination
  by (relation "measure (\<lambda>(k, df). df_len df)") (auto simp: df_len_def)

declare df_chunks.simps [simp del]


text \<open>A fresh row index: the labels \<open>0, 1, 2, ...\<close> in order.\<close>

definition renumber :: "(nat \<times> 'v list) list \<Rightarrow> (nat \<times> 'v list) list" where
  "renumber rows = zip [0 ..< length rows] (map snd rows)"

text \<open>
  \<open>concat(dfs, ignore_index=True)\<close> of tables with the same columns: the rows of the
  tables one after the other, with a fresh row index.
\<close>

definition concat_contract :: "'v pandas \<Rightarrow> bool" where
  "concat_contract pd =
     (\<forall>dfs cs.
        dfs \<noteq> [] \<longrightarrow> (\<forall>d \<in> set dfs. df_columns d = cs) \<longrightarrow>
        pd_concat pd dfs = Inr \<lparr>df_columns = cs, df_rows = renumber (concat (map df_rows dfs))\<rparr>)"

text \<open>
  \<open>df.sample(n=n, random_state=seed)\<close> with \<open>0 \<le> n < len(df)\<close>: \<open>n\<close> of the rows of
  the table, none taken twice, with the table's columns.
\<close>

definition sample_contract :: "'v pandas \<Rightarrow> bool" where
  "sample_contract pd =
     (\<forall>df n seed.
        0 \<le> n \<longrightarrow> n < int (df_len df) \<longrightarrow>
        (\<exists>s. df_sample pd df n seed = Inr s \<and> df_columns s = df_columns df
             \<and> int (df_len s) = n \<and> mset (df_rows s) \<subseteq># mset (df_rows df)))"

section \<open>Reference definitions\<close>

text \<open>
  Loading each year in request order and putting the results together: the first
  exception, or all the tables.
\<close>

fun all_results :: "('e + 'a) list \<Rightarrow> 'e + 'a list" where
  "all_results [] = Inr []"
| "all_results (Inl e # rs) = Inl e"
| "all_results (Inr a # rs) = (case all_results rs of Inl e \<Rightarrow> Inl e | Inr as \<Rightarrow> Inr (a # as))"


text \<open>The first year of a list that has no file.\<close>

definition first_missing :: "filesystem \<Rightarrow> OPTDataLoader \<Rightarrow> int list \<Rightarrow> int option" where
  "first_missing fs ld years = find (\<lambda>y. \<not> path_exists fs (year_file ld y)) years"

section \<open>A small CSV reader, for concrete runs\<close>

text \<open>
  A reader of comma-separated text with string cells: the first non-empty line is the
  header, each further non-empty line is a row; a file with no line has no columns to
  parse.
\<close>

definition mini_table :: "string \<Rightarrow> py_exception + string DataFrame" where
  "mini_table content =
     (case filter (\<lambda>l. l \<noteq> []) (split_char (CHR 0x0A) content) of
        [] \<Rightarrow> Inl (Exception (LibraryError ''EmptyDataError'') ''No columns to parse from file'')
      | header # lines \<Rightarrow>
          Inr \<lparr>df_columns = split_char (CHR '','') header,
               df_rows = zip [0 ..< length lines] (map (split_char (CHR '','')) lines)\<rparr>)"

definition mini_project :: "string list \<Rightarrow> string DataFrame \<Rightarrow> string DataFrame" where
  "mini_project cs df =
     \<lparr>df_columns = filter (\<lambda>c. c \<in> set cs) (df_columns df),
      df_rows = map (\<lambda>(i, r). (i, map snd (filter (\<lambda>(c, v). c \<in> set cs) (zip (df_columns df) r)))) (df_rows df)\<rparr>"

definition mini_read_csv :: "string \<Rightarrow> string list option \<Rightarrow> int option \<Rightarrow> dtype option \<Rightarrow> py_exception + string DataFrame" where
  "mini_read_csv content usecols nrows dt =
     (case mini_table content of
        Inl e \<Rightarrow> Inl e
      | Inr df \<Rightarrow>
          (case (case usecols of
                   None \<Rightarrow> Inr df
                 | Some cs \<Rightarrow> if set cs \<subseteq> set (df_columns df) then Inr (mini_project cs df)
                             else Inl (Exception ValueError ''Usecols do not match columns'')) of
             Inl e \<Rightarrow> Inl e
           | Inr df' \<Rightarrow>
               (case nrows of
                  None \<Rightarrow> Inr df'
                | Some n \<Rightarrow> if n < 0 then Inl (Exception ValueError ''nrows must be an integer >=0'')
                            else Inr (df'\<lparr>df_rows := take (nat n) (df_rows df')\<rparr>))))"

definition mini_read_csv_chunks :: "string \<Rightarrow> string list option \<Rightarrow> int \<Rightarrow> dtype option \<Rightarrow> string DataFrame list \<times> py_exception option" where
  "mini_read_csv_chunks content usecols k dt =
     (if k \<le> 0 then ([], Some (Exception ValueError ''chunksize must be an integer >=1''))
      else (case mini_read_csv content usecols None dt of
              Inl e \<Rightarrow> ([], Some e)
            | Inr df \<Rightarrow> (df_chunks (nat k) df, None)))"

definition mini_align :: "string list \<Rightarrow> string DataFrame \<Rightarrow> (nat \<times> string list) list" where
  "mini_align cs df =
     map (\<lambda>(i, r). (i, map (\<lambda>c. case map_of (zip (df_columns df) r) c of None \<Rightarrow> ''NaN'' | Some v \<Rightarrow> v) cs)) (df_rows df)"

definition mini_concat :: "string DataFrame list \<Rightarrow> py_exception + string DataFrame" where
  "mini_concat dfs =
     (case dfs of
        [] \<Rightarrow> Inl (Exception ValueError ''No objects to concatenate'')
      | d # ds \<Rightarrow>
          if list_all (\<lambda>x. df_columns x = df_columns d) ds
          then Inr \<lparr>df_columns = df_columns d, df_rows = renumber (concat (map df_rows dfs))\<rparr>
          else (let cs = remdups (concat (map df_columns dfs))
                in Inr \<lparr>df_columns = cs, df_rows = renumber (concat (map (mini_align cs) dfs))\<rparr>))"

definition mini_sample :: "string DataFrame \<Rightarrow> int \<Rightarrow> int \<Rightarrow> py_exception + string DataFrame" where
  "mini_sample df n seed =
     (if n < 0 then Inl (Exception ValueError ''A negative number of rows requested'')
      else if int (df_len df) < n then Inl (Exception ValueError ''Cannot take a larger sample than population'')
      else Inr (df\<lparr>df_rows := take (nat n) (rev (df_rows df))\<rparr>))"

definition mini_pd :: "string pandas" where
  "mini_pd = \<lparr>pd_read_csv = mini_read_csv, pd_read_csv_chunks = mini_read_csv_chunks,
              pd_concat = mini_concat, df_sample = mini_sample\<rparr>"

text \<open>A directory, a loader over it and a pool, for concrete runs.\<close>

definition demo_fs :: filesystem where
  "demo_fs = [''/data'' \<mapsto>
     [(''cleaned_2019_all.csv'', ''a,b'' @ [CHR 0x0A] @ ''1,2'' @ [CHR 0x0A] @ ''3,4'' @ [CHR 0x0A] @ ''5,6'' @ [CHR 0x0A]),
      (''cleaned_2020_all.csv'', ''a,b'' @ [CHR 0x0A] @ ''7,8''),
      (''cleaned_2021_all.csv'', []),
      (''notes.txt'', ''x'')]]"

definition demo_loader :: OPTDataLoader where
  "demo_loader = \<lparr>data_dir = ''/data'', available_years = [2019, 2020, 2021]\<rparr>"

definition demo_pool :: pool where
  "demo_pool = \<lparr>cpu_count = 4, completion_order = [1, 0]\<rparr>"

section \<open>Resolving the file of a year\<close>

lemma get_file_path_missing:
  "\<not> path_exists fs (year_file ld year) \<Longrightarrow> get_file_path fs ld year = Inl (no_data_file ld year)"
  by (simp add: get_file_path_def)

section \<open>Concrete runs on the small directory\<close>

lemma demo_bytes_2019:
  "read_bytes demo_fs (year_file demo_loader 2019)
     = Some (''a,b'' @ [CHR 0x0A] @ ''1,2'' @ [CHR 0x0A] @ ''3,4'' @ [CHR 0x0A] @ ''5,6'' @ [CHR 0x0A])"
  by code_simp

lemma demo_load_2019:
  "snd (load_year mini_pd demo_fs demo_loader 2019 None None None None)
     = Inr \<lparr>df_columns = [''a'', ''b''],
            df_rows = [(0, [''1'', ''2'']), (1, [''3'', ''4'']), (2, [''5'', ''6''])]\<rparr>"
  by code_simp

section \<open>Single-year load\<close>

lemma load_year_result:
  assumes "read_bytes fs (year_file ld year) = Some content"
  shows "snd (load_year pd fs ld year cols filter_func nrows dt) =
           (case pd_read_csv pd content cols nrows dt of
              Inl e \<Rightarrow> Inl e
            | Inr df \<Rightarrow> apply_filter filter_func df)"
  using assms
  by (simp add: load_year_def get_file_path_def path_exists_def read_csv_def Let_def
           split: sum.splits)

text \<open>
  C1. When the file of the year exists, \<open>load_year\<close> without a filter returns what the
  physical read returns, unchanged. With the filter that keeps the rows for which a row
  predicate \<open>p\<close> holds, it returns exactly those rows of the unfiltered load, in order
  and with the same columns; and where the unfiltered load raises, so does the
  filtered one.
\<close>

theorem load_year_filter:
  assumes "read_bytes fs (year_file ld year) = Some content"
  shows "snd (load_year pd fs ld year cols None nrows dt) = pd_read_csv pd content cols nrows dt
       \<and> (\<forall>df. snd (load_year pd fs ld year cols None nrows dt) = Inr df \<longrightarrow>
              snd (load_year pd fs ld year cols (Some (\<lambda>d. Inr (df_select p d))) nrows dt)
                = Inr (df_select p df)
              \<and> df_columns (df_select p df) = df_columns df
              \<and> df_rows (df_select p df) = filter (\<lambda>(i, r). p r) (df_rows df))
       \<and> (\<forall>e. snd (load_year pd fs ld year cols None nrows dt) = Inl e \<longrightarrow>
              snd (load_year pd fs ld year cols (Some (\<lambda>d. Inr (df_select p d))) nrows dt) = Inl e)"
  by (simp add: load_year_result[OF assms] apply_filter_def df_select_def split: sum.splits)

theorem load_year_filter_witness:
  "read_bytes demo_fs (year_file demo_loader 2019)
     = Some (''a,b'' @ [CHR 0x0A] @ ''1,2'' @ [CHR 0x0A] @ ''3,4'' @ [CHR 0x0A] @ ''5,6'' @ [CHR 0x0A])
   \<and> snd (load_year mini_pd demo_fs demo_loader 2019 None None None None)
     = Inr \<lparr>df_columns = [''a'', ''b''],
            df_rows = [(0, [''1'', ''2'']), (1, [''3'', ''4'']), (2, [''5'', ''6''])]\<rparr>
   \<and> snd (load_year mini_pd demo_fs demo_loader 2019 None
            (Some (\<lambda>d. Inr (df_select (\<lambda>r. hd r \<noteq> ''3'') d))) None None)
     = Inr \<lparr>df_columns = [''a'', ''b''],
            df_rows = [(0, [''1'', ''2'']), (2, [''5'', ''6''])]\<rparr>"
proof -
  note h = demo_bytes_2019 and u = demo_load_2019
  from load_year_filter[OF h, of mini_pd None None None "\<lambda>r. hd r \<noteq> ''3''"] u
  have "snd (load_year mini_pd demo_fs demo_loader 2019 None
            (Some (\<lambda>d. Inr (df_select (\<lambda>r. hd r \<noteq> ''3'') d))) None None)
     = Inr (df_select (\<lambda>r. hd r \<noteq> ''3'') \<lparr>df_columns = [''a'', ''b''],
            df_rows = [(0, [''1'', ''2'']), (1, [''3'', ''4'']), (2, [''5'', ''6''])]\<rparr>)"
    by simp
  then show ?thesis using h u by (simp add: df_select_def)
qed

section \<open>Construction and the two not-found failures\<close>

lemma init_missing_dir:
  "fs (case dir_arg of None \<Rightarrow> sp @ ''/data/cleaned'' | Some p \<Rightarrow> p) = None \<Longrightarrow>
   OPTDataLoader_init fs sp dir_arg =
     Inl (Exception FileNotFoundError
           (''Data directory not found: '' @ (case dir_arg of None \<Rightarrow> sp @ ''/data/cleaned'' | Some p \<Rightarrow> p)))"
  by (simp add: OPTDataLoader_init_def Let_def)

lemma init_available_years:
  "OPTDataLoader_init fs sp dir_arg = Inr ld \<Longrightarrow> available_years ld = get_available_years fs (data_dir ld)"
  by (auto simp: OPTDataLoader_init_def Let_def split: if_splits)

lemma demo_missing_2022: "\<not> path_exists demo_fs (year_file demo_loader 2022)"
  by code_simp

lemma demo_no_data_file_2022:
  "no_data_file demo_loader 2022 =
     Exception FileNotFoundError ''No data file found for year 2022. Available years: [2019, 2020, 2021]''"
  by code_simp

lemma demo_init: "OPTDataLoader_init demo_fs ''/s'' (Some ''/data'') = Inr demo_loader"
  by code_simp

lemma demo_no_dir: "demo_fs ''/nope'' = None"
  by (simp add: demo_fs_def)

text \<open>
  C10. The exception raised at construction when the data directory is absent and the
  exception raised when a year has no file are both of class \<open>FileNotFoundError\<close>;
  they differ in their message only.
\<close>

theorem not_found_same_type:
  assumes "fs d = None" and "\<not> path_exists fs' (year_file ld year)"
  shows "\<exists>e1 e2. OPTDataLoader_init fs sp (Some d) = Inl e1 \<and> get_file_path fs' ld year = Inl e2
           \<and> exc_class e1 = FileNotFoundError \<and> exc_class e2 = FileNotFoundError
           \<and> exc_str e1 = ''Data directory not found: '' @ d
           \<and> exc_str e2 = ''No data file found for year '' @ str_int year @ ''. Available years: ''
                            @ str_int_list (available_years ld)
           \<and> exc_str e1 \<noteq> exc_str e2"
  using assms
  by (simp add: init_missing_dir get_file_path_missing no_data_file_def)

text \<open>The two failures on the small directory: an absent directory, and the year 2022.\<close>

theorem not_found_same_type_witness:
  "demo_fs ''/nope'' = None
   \<and> \<not> path_exists demo_fs (year_file demo_loader 2022)
   \<and> OPTDataLoader_init demo_fs ''/s'' (Some ''/nope'')
       = Inl (Exception FileNotFoundError ''Data directory not found: /nope'')
   \<and> get_file_path demo_fs demo_loader 2022
       = Inl (Exception FileNotFoundError
               ''No data file found for year 2022. Available years: [2019, 2020, 2021]'')"
proof -
  from not_found_same_type[where fs = demo_fs and d = "''/nope''" and sp = "''/s''",
         OF demo_no_dir demo_missing_2022]
  obtain e1 e2 where
    i: "OPTDataLoader_init demo_fs ''/s'' (Some ''/nope'') = Inl e1"
    and g: "get_file_path demo_fs demo_loader 2022 = Inl e2"
    and c1: "exc_class e1 = FileNotFoundError" and s1: "exc_str e1 = ''Data directory not found: '' @ ''/nope''"
    and c2: "exc_class e2 = FileNotFoundError"
    by blast
  have "e1 = Exception FileNotFoundError ''Data directory not found: /nope''"
    using c1 s1 by (cases e1) simp
  moreover have "e2 = no_data_file demo_loader 2022"
    using g by (simp add: get_file_path_missing[OF demo_missing_2022])
  ultimately show ?thesis
    using i g demo_no_dir demo_missing_2022 demo_no_data_file_2022 by simp
qed

section \<open>Column discovery with the default year\<close>

lemma get_column_names_default_empty:
  "available_years ld = [] \<Longrightarrow>
   get_column_names pd fs ld None = Inl (Exception IndexError ''list index out of range'')"
  by (simp add: get_column_names_def)

lemma get_column_names_default_last:
  "available_years ld \<noteq> [] \<Longrightarrow>
   get_column_names pd fs ld None = get_column_names pd fs ld (Some (last (available_years ld)))"
  by (simp add: get_column_names_def)

lemma no_match_no_years:
  assumes "fs d = Some entries" and "\<forall>n \<in> set (map fst entries). \<not> glob_star ''cleaned_'' ''_all.csv'' n"
  shows "get_available_years fs d = []"
proof -
  have "filter (glob_star ''cleaned_'' ''_all.csv'') (map fst entries) = []"
    using assms(2) by (simp add: filter_empty_conv)
  then show ?thesis using assms(1)
    by (simp add: get_available_years_def List.map_filter_simps)
qed

text \<open>
  C9. With an empty list of available years, \<open>get_column_names\<close> called without a year
  raises \<open>IndexError\<close> (the index of the last element is out of range), which is not
  the \<open>FileNotFoundError\<close> of a missing year file; with a non-empty list it is the
  call for the last available year. A directory in which no file name matches the
  pattern of year files gives a loader whose list is empty.
\<close>

theorem default_year_empty:
  "(available_years ld = [] \<longrightarrow>
      get_column_names pd fs ld None = Inl (Exception IndexError ''list index out of range'')
      \<and> exc_class (Exception IndexError ''list index out of range'') \<noteq> FileNotFoundError)
   \<and> (available_years ld \<noteq> [] \<longrightarrow>
      get_column_names pd fs ld None = get_column_names pd fs ld (Some (last (available_years ld))))
   \<and> (fs0 d = Some entries \<and> (\<forall>n \<in> set (map fst entries). \<not> glob_star ''cleaned_'' ''_all.csv'' n) \<longrightarrow>
      OPTDataLoader_init fs0 sp (Some d) = Inr \<lparr>data_dir = d, available_years = []\<rparr>)"
  by (auto simp: get_column_names_default_empty get_column_names_default_last
        OPTDataLoader_init_def no_match_no_years)

text \<open>A loader with no available year, one with three, and a directory with no year file.\<close>

theorem default_year_empty_witness:
  "get_column_names mini_pd demo_fs \<lparr>data_dir = ''/data'', available_years = []\<rparr> None
     = Inl (Exception IndexError ''list index out of range'')
   \<and> get_column_names mini_pd demo_fs demo_loader None
     = get_column_names mini_pd demo_fs demo_loader (Some 2021)
   \<and> OPTDataLoader_init [''/data'' \<mapsto> [(''notes.txt'', ''x'')]] ''/s'' (Some ''/data'')
     = Inr \<lparr>data_dir = ''/data'', available_years = []\<rparr>"
proof -
  have a: "get_column_names mini_pd demo_fs \<lparr>data_dir = ''/data'', available_years = []\<rparr> None
     = Inl (Exception IndexError ''list index out of range'')"
    using default_year_empty[of "\<lparr>data_dir = ''/data'', available_years = []\<rparr>" mini_pd demo_fs]
    by simp
  have b: "get_column_names mini_pd demo_fs demo_loader None
     = get_column_names mini_pd demo_fs demo_loader (Some 2021)"
    using default_year_empty[of demo_loader mini_pd demo_fs]
    by (simp add: demo_loader_def)
  have c: "OPTDataLoader_init [''/data'' \<mapsto> [(''notes.txt'', ''x'')]] ''/s'' (Some ''/data'')
     = Inr \<lparr>data_dir = ''/data'', available_years = []\<rparr>"
    using default_year_empty[of demo_loader mini_pd demo_fs "[''/data'' \<mapsto> [(''notes.txt'', ''x'')]]"
            "''/data''" "[(''notes.txt'', ''x'')]" "''/s''"]
    by (simp add: glob_star_def)
  show ?thesis using a b c by simp
qed

section \<open>The convenience entry point\<close>

text \<open>
  C5, as the code has it. When the loader can be constructed (the data directory
  exists), \<open>quick_load\<close> is \<open>load_all\<close> for the string \<open>all\<close>, \<open>load_year\<close> for an int
  and \<open>load_years\<close> for a list, with the columns and the filter passed on, and for
  every other value of \<open>years\<close> it raises the \<open>ValueError\<close>. When the construction
  raises, \<open>quick_load\<close> raises its exception, whatever \<open>years\<close> is.
\<close>

theorem quick_load_dispatch:
  "(OPTDataLoader_init fs sp dir_arg = Inr loader \<longrightarrow>
       quick_load pd pl fs sp (PyStr ''all'') cols f dir_arg = load_all pd pl fs loader cols f True None
     \<and> quick_load pd pl fs sp (PyInt y) cols f dir_arg = load_year pd fs loader y cols f None None
     \<and> quick_load pd pl fs sp (PyList ys) cols f dir_arg = load_years pd pl fs loader ys cols f True None
     \<and> (years \<noteq> PyStr ''all'' \<and> (\<forall>y. years \<noteq> PyInt y) \<and> (\<forall>ys. years \<noteq> PyList ys) \<longrightarrow>
          quick_load pd pl fs sp years cols f dir_arg
            = ([], Inl (Exception ValueError
                     (''years must be an int, list of ints, or '' @ [CHR 0x27] @ ''all'' @ [CHR 0x27])))))
   \<and> (OPTDataLoader_init fs sp dir_arg = Inl e \<longrightarrow>
       quick_load pd pl fs sp years cols f dir_arg = ([], Inl e))"
  by (cases years) (simp_all add: quick_load_def)

text \<open>The four branches on the small directory, and a directory that does not exist.\<close>

theorem quick_load_dispatch_witness:
  "OPTDataLoader_init demo_fs ''/s'' (Some ''/data'') = Inr demo_loader
   \<and> quick_load mini_pd demo_pool demo_fs ''/s'' (PyStr ''all'') None None (Some ''/data'')
       = load_all mini_pd demo_pool demo_fs demo_loader None None True None
   \<and> quick_load mini_pd demo_pool demo_fs ''/s'' (PyInt 2019) None None (Some ''/data'')
       = load_year mini_pd demo_fs demo_loader 2019 None None None None
   \<and> quick_load mini_pd demo_pool demo_fs ''/s'' (PyList [2019, 2020]) None None (Some ''/data'')
       = load_years mini_pd demo_pool demo_fs demo_loader [2019, 2020] None None True None
   \<and> quick_load mini_pd demo_pool demo_fs ''/s'' (PyFloat (5 / 2)) None None (Some ''/data'')
       = ([], Inl (Exception ValueError
                 (''years must be an int, list of ints, or '' @ [CHR 0x27] @ ''all'' @ [CHR 0x27])))
   \<and> OPTDataLoader_init demo_fs ''/s'' (Some ''/nope'')
       = Inl (Exception FileNotFoundError ''Data directory not found: /nope'')
   \<and> quick_load mini_pd demo_pool demo_fs ''/s'' (PyList [2019, 2020]) None None (Some ''/nope'')
       = ([], Inl (Exception FileNotFoundError ''Data directory not found: /nope''))"
proof -
  have i: "OPTDataLoader_init demo_fs ''/s'' (Some ''/nope'')
       = Inl (Exception FileNotFoundError ''Data directory not found: /nope'')"
    using init_missing_dir[where fs = demo_fs and dir_arg = "Some ''/nope''" and sp = "''/s''"] demo_no_dir
    by simp
  note a = quick_load_dispatch[where fs = demo_fs and sp = "''/s''" and dir_arg = "Some ''/data''"
             and loader = demo_loader and pd = mini_pd and pl = demo_pool and cols = None and f = None
             and y = 2019 and ys = "[2019, 2020]" and years = "PyFloat (5 / 2)", THEN conjunct1]
  note b = quick_load_dispatch[where fs = demo_fs and sp = "''/s''" and dir_arg = "Some ''/nope''"
             and pd = mini_pd and pl = demo_pool and cols = None and f = None
             and years = "PyList [2019, 2020]"
             and e = "Exception FileNotFoundError ''Data directory not found: /nope''", THEN conjunct2]
  show ?thesis using a b demo_init i by simp
qed

text \<open>
  With a data directory that does not exist the construction raises first: a float as
  \<open>years\<close> then gives \<open>FileNotFoundError\<close>, not the \<open>ValueError\<close>.
\<close>

theorem quick_load_missing_directory:
  "quick_load mini_pd demo_pool demo_fs ''/s'' (PyFloat (5 / 2)) None None (Some ''/nope'')
     = ([], Inl (Exception FileNotFoundError ''Data directory not found: /nope''))
   \<and> exc_class (Exception FileNotFoundError ''Data directory not found: /nope'') \<noteq> ValueError"
  by (simp add: quick_load_def OPTDataLoader_init_def demo_no_dir)

section \<open>A year with no file\<close>

lemma load_year_missing:
  "\<not> path_exists fs (year_file ld year) \<Longrightarrow>
   load_year pd fs ld year cols f nrows dt = ([], Inl (no_data_file ld year))"
  by (simp add: load_year_def get_file_path_missing)

lemma submit_all_missing:
  "first_missing fs ld years = Some y \<Longrightarrow> submit_all fs ld years = Inl (no_data_file ld y)"
  by (induction years) (auto simp: first_missing_def get_file_path_def split: if_splits)

lemma submit_all_present:
  "first_missing fs ld years = None \<Longrightarrow>
   submit_all fs ld years = Inr (map (\<lambda>y. (year_file ld y, y)) years)"
  by (induction years) (auto simp: first_missing_def get_file_path_def split: if_splits)

lemma first_missing_Some:
  "year \<in> set years \<Longrightarrow> \<not> path_exists fs (year_file ld year) \<Longrightarrow>
   \<exists>y. first_missing fs ld years = Some y \<and> y \<in> set years \<and> \<not> path_exists fs (year_file ld y)"
  unfolding first_missing_def
  by (cases "find (\<lambda>y. \<not> path_exists fs (year_file ld y)) years")
     (auto simp: find_None_iff find_Some_iff)

lemma load_years_parallel_missing:
  assumes "first_missing fs ld years = Some y" and "0 < cpu_count pl"
  shows "load_years_parallel pd pl fs ld years cols f dt = ([], Inl (no_data_file ld y))"
proof -
  have "years \<noteq> []" using assms(1) by (auto simp: first_missing_def)
  then show ?thesis using assms(2)
    by (simp add: load_years_parallel_def Let_def submit_all_missing[OF assms(1)] min_def)
qed

lemma load_each_reaches_missing:
  assumes "\<forall>y \<in> set pre. \<exists>df. snd (load_year pd fs ld y cols f None dt) = Inr df"
      and "\<not> path_exists fs (year_file ld year)"
  shows "snd (load_each pd fs ld cols f dt (pre @ year # post)) = Inl (no_data_file ld year)"
  using assms(1)
proof (induction pre)
  case Nil
  then show ?case by (simp add: load_year_missing[OF assms(2)])
next
  case (Cons y pre)
  then obtain df where "snd (load_year pd fs ld y cols f None dt) = Inr df" by auto
  moreover have "snd (load_each pd fs ld cols f dt (pre @ year # post)) = Inl (no_data_file ld year)"
    using Cons by simp
  ultimately show ?case
    by (cases "load_year pd fs ld y cols f None dt";
        cases "load_each pd fs ld cols f dt (pre @ year # post)") simp
qed

lemma load_years_sequential_snd:
  "\<not> (parallel \<and> 1 < length years) \<Longrightarrow>
   snd (load_years pd pl fs ld years cols f parallel dt) =
     (case snd (load_each pd fs ld cols f dt years) of
        Inl e \<Rightarrow> Inl e
      | Inr dfs \<Rightarrow> pd_concat pd dfs)"
  by (cases "load_each pd fs ld cols f dt years")
     (auto simp: load_years_def Let_def concat_report_def split: sum.splits prod.splits)

text \<open>
  C7, as the code has it. For a year with no file, \<open>load_year\<close>, \<open>sample_year\<close>,
  \<open>get_year_info\<close> and \<open>get_column_names\<close> for that year raise the
  \<open>FileNotFoundError\<close> of \<open>_get_file_path\<close> before anything is printed or read, and
  the iteration of \<open>iter_year_chunks\<close> ends with it before a chunk is yielded. A
  parallel multi-year load of a list that holds the year raises it for the first year
  of the list that has no file. A sequential load raises it for the year when every
  year before it in the list has loaded. The message names the year and lists the
  available years of the loader, which are those found at construction.
\<close>

theorem missing_year_fails:
  assumes "\<not> path_exists fs (year_file ld year)"
  shows "load_year pd fs ld year cols f nrows dt = ([], Inl (no_data_file ld year))
       \<and> iter_year_chunks pd fs ld year k cols dt = ([], [], Some (no_data_file ld year))
       \<and> sample_year pd fs ld year n cols = ([], Inl (no_data_file ld year))
       \<and> get_year_info pd fs ld year = Inl (no_data_file ld year)
       \<and> get_column_names pd fs ld (Some year) = Inl (no_data_file ld year)
       \<and> (year \<in> set years \<and> 1 < length years \<and> 0 < cpu_count pl \<longrightarrow>
            (\<exists>y. first_missing fs ld years = Some y
               \<and> snd (load_years pd pl fs ld years cols f True dt) = Inl (no_data_file ld y)))
       \<and> (\<not> (parallel \<and> 1 < length (pre @ year # post))
            \<and> (\<forall>y \<in> set pre. \<exists>df. snd (load_year pd fs ld y cols f None dt) = Inr df) \<longrightarrow>
            snd (load_years pd pl fs ld (pre @ year # post) cols f parallel dt) = Inl (no_data_file ld year))
       \<and> (\<forall>y. no_data_file ld y =
            Exception FileNotFoundError
              (''No data file found for year '' @ str_int y @ ''. Available years: ''
               @ str_int_list (available_years ld)))
       \<and> (OPTDataLoader_init fs0 sp dir_arg = Inr ld \<longrightarrow>
            available_years ld = get_available_years fs0 (data_dir ld))"
proof -
  have a: "load_year pd fs ld year cols f nrows dt = ([], Inl (no_data_file ld year))"
    by (rule load_year_missing[OF assms])
  have b: "iter_year_chunks pd fs ld year k cols dt = ([], [], Some (no_data_file ld year))"
    by (simp add: iter_year_chunks_def get_file_path_missing[OF assms])
  have c: "sample_year pd fs ld year n cols = ([], Inl (no_data_file ld year))"
    by (simp add: sample_year_def get_file_path_missing[OF assms])
  have d: "get_year_info pd fs ld year = Inl (no_data_file ld year)"
    by (simp add: get_year_info_def get_file_path_missing[OF assms])
  have e: "get_column_names pd fs ld (Some year) = Inl (no_data_file ld year)"
    by (simp add: get_column_names_def get_file_path_missing[OF assms])
  have g: "\<exists>y. first_missing fs ld years = Some y
               \<and> snd (load_years pd pl fs ld years cols f True dt) = Inl (no_data_file ld y)"
    if "year \<in> set years" "1 < length years" "0 < cpu_count pl"
  proof -
    from first_missing_Some[OF that(1) assms] obtain y where y: "first_missing fs ld years = Some y"
      by blast
    have "snd (load_years pd pl fs ld years cols f True dt) = Inl (no_data_file ld y)"
      using that(2) by (simp add: load_years_def load_years_parallel_missing[OF y that(3)])
    with y show ?thesis by blast
  qed
  have h: "snd (load_years pd pl fs ld (pre @ year # post) cols f parallel dt) = Inl (no_data_file ld year)"
    if "\<not> (parallel \<and> 1 < length (pre @ year # post))"
       "\<forall>y \<in> set pre. \<exists>df. snd (load_year pd fs ld y cols f None dt) = Inr df"
    by (simp add: load_years_sequential_snd[OF that(1)] load_each_reaches_missing[OF that(2) assms])
  have i: "\<forall>y. no_data_file ld y =
            Exception FileNotFoundError
              (''No data file found for year '' @ str_int y @ ''. Available years: ''
               @ str_int_list (available_years ld))"
    by (simp add: no_data_file_def)
  show ?thesis using a b c d e g h i init_available_years by blast
qed

text \<open>The year 2022 of the small directory, alone and after the year 2019.\<close>

theorem missing_year_fails_witness:
  "\<not> path_exists demo_fs (year_file demo_loader 2022)
   \<and> OPTDataLoader_init demo_fs ''/s'' (Some ''/data'') = Inr demo_loader
   \<and> load_year mini_pd demo_fs demo_loader 2022 None None None None
       = ([], Inl (Exception FileNotFoundError ''No data file found for year 2022. Available years: [2019, 2020, 2021]''))
   \<and> iter_year_chunks mini_pd demo_fs demo_loader 2022 2 None None
       = ([], [], Some (Exception FileNotFoundError ''No data file found for year 2022. Available years: [2019, 2020, 2021]''))
   \<and> sample_year mini_pd demo_fs demo_loader 2022 2 None
       = ([], Inl (Exception FileNotFoundError ''No data file found for year 2022. Available years: [2019, 2020, 2021]''))
   \<and> get_year_info mini_pd demo_fs demo_loader 2022
       = Inl (Exception FileNotFoundError ''No data file found for year 2022. Available years: [2019, 2020, 2021]'')
   \<and> get_column_names mini_pd demo_fs demo_loader (Some 2022)
       = Inl (Exception FileNotFoundError ''No data file found for year 2022. Available years: [2019, 2020, 2021]'')
   \<and> snd (load_years mini_pd demo_pool demo_fs demo_loader [2019, 2022] None None True None)
       = Inl (Exception FileNotFoundError ''No data file found for year 2022. Available years: [2019, 2020, 2021]'')
   \<and> snd (load_years mini_pd demo_pool demo_fs demo_loader [2019, 2022] None None False None)
       = Inl (Exception FileNotFoundError ''No data file found for year 2022. Available years: [2019, 2020, 2021]'')
   \<and> available_years demo_loader = get_available_years demo_fs (data_dir demo_loader)"
proof -
  have fm: "first_missing demo_fs demo_loader [2019, 2022] = Some 2022"
    by code_simp
  have pre: "\<forall>y \<in> set [2019]. \<exists>df. snd (load_year mini_pd demo_fs demo_loader y None None None None) = Inr df"
    using demo_load_2019 by simp
  note t = missing_year_fails[OF demo_missing_2022, where pd = mini_pd and cols = None and f = None
             and nrows = None and dt = None and k = 2 and n = 2 and years = "[2019, 2022]"
             and pl = demo_pool and parallel = False and pre = "[2019]" and post = "[]"
             and ?fs0.0 = demo_fs and sp = "''/s''" and dir_arg = "Some ''/data''"]
  show ?thesis
    using t fm pre demo_init demo_missing_2022 demo_no_data_file_2022
    by (simp add: demo_pool_def)
qed

text \<open>
  A sequential load of the years 2021 and 2022: the file of 2021 is empty, and the
  exception of its read is raised before the missing year 2022 is reached.
\<close>

theorem load_years_earlier_failure:
  "\<not> path_exists demo_fs (year_file demo_loader 2022)
   \<and> snd (load_years mini_pd demo_pool demo_fs demo_loader [2021, 2022] None None False None)
       = Inl (Exception (LibraryError ''EmptyDataError'') ''No columns to parse from file'')"
proof -
  have "snd (load_year mini_pd demo_fs demo_loader 2021 None None None None)
       = Inl (Exception (LibraryError ''EmptyDataError'') ''No columns to parse from file'')"
    by code_simp
  then have "snd (load_each mini_pd demo_fs demo_loader None None None [2021, 2022])
       = Inl (Exception (LibraryError ''EmptyDataError'') ''No columns to parse from file'')"
    by (cases "load_year mini_pd demo_fs demo_loader 2021 None None None None") simp
  then show ?thesis
    using demo_missing_2022 by (simp add: load_years_sequential_snd)
qed

section \<open>Year metadata\<close>















section \<open>Multi-year load, sequential\<close>

lemma load_each_all_results:
  "snd (load_each pd fs ld cols f dt years) =
     all_results (map (\<lambda>y. snd (load_year pd fs ld y cols f None dt)) years)"
proof (induction years)
  case Nil
  then show ?case by simp
next
  case (Cons y years)
  then show ?case
    by (cases "load_year pd fs ld y cols f None dt"; cases "load_each pd fs ld cols f dt years")
       (auto split: sum.splits)
qed

lemma all_results_Inr: "all_results (map Inr xs) = Inr xs"
  by (induction xs) simp_all

lemma renumber_index: "map fst (renumber rows) = [0 ..< length rows]"
  by (simp add: renumber_def)

lemma renumber_rows: "map snd (renumber rows) = map snd rows"
  by (simp add: renumber_def)

lemma mini_concat_contract: "concat_contract mini_pd"
proof -
  have "mini_concat dfs = Inr \<lparr>df_columns = cs, df_rows = renumber (concat (map df_rows dfs))\<rparr>"
    if "dfs \<noteq> []" "\<forall>d \<in> set dfs. df_columns d = cs" for dfs :: "string DataFrame list" and cs
  proof (cases dfs)
    case Nil
    then show ?thesis using that by simp
  next
    case (Cons d ds)
    then have "list_all (\<lambda>x. df_columns x = df_columns d) ds" and "df_columns d = cs"
      using that(2) by (simp_all add: list_all_iff)
    then show ?thesis using Cons by (simp add: mini_concat_def)
  qed
  then show ?thesis by (simp add: concat_contract_def mini_pd_def)
qed

text \<open>
  C3. The sequential \<open>load_years\<close> is \<open>load_year\<close> for each year in request order
  (the first exception ends it) and then the concatenation of the tables, in that order,
  with \<open>ignore_index=True\<close>. When every year loads and the tables have the same
  columns, a library that concatenates as documented gives the rows of the years one
  after the other in request order, labelled \<open>0, 1, 2, ...\<close>.
\<close>

theorem load_years_sequential:
  "snd (load_years pd pl fs ld years cols f False dt) =
     (case all_results (map (\<lambda>y. snd (load_year pd fs ld y cols f None dt)) years) of
        Inl e \<Rightarrow> Inl e
      | Inr dfs \<Rightarrow> pd_concat pd dfs)
   \<and> (concat_contract pd \<and> years \<noteq> []
        \<and> map (\<lambda>y. snd (load_year pd fs ld y cols f None dt)) years = map Inr dfs
        \<and> (\<forall>d \<in> set dfs. df_columns d = cs) \<longrightarrow>
        snd (load_years pd pl fs ld years cols f False dt)
          = Inr \<lparr>df_columns = cs, df_rows = renumber (concat (map df_rows dfs))\<rparr>
        \<and> map fst (renumber (concat (map df_rows dfs))) = [0 ..< length (concat (map df_rows dfs))]
        \<and> map snd (renumber (concat (map df_rows dfs))) = map snd (concat (map df_rows dfs)))"
proof -
  have a: "snd (load_years pd pl fs ld years cols f False dt) =
     (case all_results (map (\<lambda>y. snd (load_year pd fs ld y cols f None dt)) years) of
        Inl e \<Rightarrow> Inl e
      | Inr dfs \<Rightarrow> pd_concat pd dfs)"
    by (simp add: load_years_sequential_snd load_each_all_results)
  have b: "snd (load_years pd pl fs ld years cols f False dt)
          = Inr \<lparr>df_columns = cs, df_rows = renumber (concat (map df_rows dfs))\<rparr>"
    if "concat_contract pd" "years \<noteq> []"
       "map (\<lambda>y. snd (load_year pd fs ld y cols f None dt)) years = map Inr dfs"
       "\<forall>d \<in> set dfs. df_columns d = cs"
  proof -
    have "dfs \<noteq> []" using that(2,3) by auto
    then have "pd_concat pd dfs = Inr \<lparr>df_columns = cs, df_rows = renumber (concat (map df_rows dfs))\<rparr>"
      using that(1,4) unfolding concat_contract_def by blast
    then show ?thesis by (simp add: a that(3) all_results_Inr)
  qed
  show ?thesis using a b by (simp add: renumber_index renumber_rows)
qed

text \<open>The years 2019 and 2020 of the small directory.\<close>

lemma demo_load_2020:
  "snd (load_year mini_pd demo_fs demo_loader 2020 None None None None)
     = Inr \<lparr>df_columns = [''a'', ''b''], df_rows = [(0, [''7'', ''8''])]\<rparr>"
  by code_simp

theorem load_years_sequential_witness:
  "concat_contract mini_pd
   \<and> map (\<lambda>y. snd (load_year mini_pd demo_fs demo_loader y None None None None)) [2019, 2020]
       = map Inr [\<lparr>df_columns = [''a'', ''b''],
                    df_rows = [(0, [''1'', ''2'']), (1, [''3'', ''4'']), (2, [''5'', ''6''])]\<rparr>,
                  \<lparr>df_columns = [''a'', ''b''], df_rows = [(0, [''7'', ''8''])]\<rparr>]
   \<and> snd (load_years mini_pd demo_pool demo_fs demo_loader [2019, 2020] None None False None)
       = Inr \<lparr>df_columns = [''a'', ''b''],
              df_rows = [(0, [''1'', ''2'']), (1, [''3'', ''4'']), (2, [''5'', ''6'']), (3, [''7'', ''8''])]\<rparr>"
proof -
  have m: "map (\<lambda>y. snd (load_year mini_pd demo_fs demo_loader y None None None None)) [2019, 2020]
       = map Inr [\<lparr>df_columns = [''a'', ''b''],
                    df_rows = [(0, [''1'', ''2'']), (1, [''3'', ''4'']), (2, [''5'', ''6''])]\<rparr>,
                  \<lparr>df_columns = [''a'', ''b''], df_rows = [(0, [''7'', ''8''])]\<rparr>]"
    using demo_load_2019 demo_load_2020 by simp
  have r: "renumber [(0, [''1'', ''2'']), (1, [''3'', ''4'']), (2, [''5'', ''6'']), (0::nat, [''7'', ''8''])]
       = [(0, [''1'', ''2'']), (1, [''3'', ''4'']), (2, [''5'', ''6'']), (3, [''7'', ''8''])]"
    by code_simp
  note t = load_years_sequential[where pd = mini_pd and pl = demo_pool and fs = demo_fs
            and ld = demo_loader and years = "[2019, 2020]" and cols = None and f = None and dt = None
            and cs = "[''a'', ''b'']"
            and dfs = "[\<lparr>df_columns = [''a'', ''b''],
                    df_rows = [(0, [''1'', ''2'']), (1, [''3'', ''4'']), (2, [''5'', ''6''])]\<rparr>,
                  \<lparr>df_columns = [''a'', ''b''], df_rows = [(0, [''7'', ''8''])]\<rparr>]"]
  have "snd (load_years mini_pd demo_pool demo_fs demo_loader [2019, 2020] None None False None)
       = Inr \<lparr>df_columns = [''a'', ''b''],
              df_rows = renumber [(0, [''1'', ''2'']), (1, [''3'', ''4'']), (2, [''5'', ''6'']), (0, [''7'', ''8''])]\<rparr>"
    using t[THEN conjunct2] mini_concat_contract m by simp
  then show ?thesis
    using mini_concat_contract m by (simp only: r simp_thms)
qed

section \<open>Multi-year load, parallel\<close>

lemma collect_results_first_failure:
  "find (\<lambda>(y, r). isl r) futures = Some (year, Inl e) \<Longrightarrow>
   collect_results futures = ([''Error loading year '' @ str_int year @ '': '' @ exc_str e], Inl e)"
proof (induction futures)
  case Nil
  then show ?case by simp
next
  case (Cons a futures)
  obtain y r where a: "a = (y, r)" by (cases a)
  show ?case
  proof (cases r)
    case (Inl e')
    then show ?thesis using Cons.prems a by simp
  next
    case (Inr df)
    then have "find (\<lambda>(y, r). isl r) futures = Some (year, Inl e)" using Cons.prems a by simp
    then show ?thesis using Cons.IH a Inr by simp
  qed
qed

lemma find_failure:
  assumes "(y, Inl e) \<in> set futures"
  shows "\<exists>y' e'. find (\<lambda>(y, r). isl r) futures = Some (y', Inl e') \<and> (y', Inl e') \<in> set futures"
  using assms
proof (induction futures)
  case Nil
  then show ?case by simp
next
  case (Cons a futures)
  obtain y1 r1 where a: "a = (y1, r1)" by (cases a)
  show ?case
  proof (cases r1)
    case (Inl e1)
    then show ?thesis using a by simp
  next
    case (Inr df)
    then have "(y, Inl e) \<in> set futures" using Cons.prems a by auto
    from Cons.IH[OF this] show ?thesis using a Inr by auto
  qed
qed

lemma as_completed_member:
  assumes "i < length futures" and "i \<in> set order"
  shows "futures ! i \<in> set (as_completed order futures)"
  using assms by (auto simp: as_completed_def List.map_filter_def)

lemma as_completed_subset: "set (as_completed order futures) \<subseteq> set futures"
  by (auto simp: as_completed_def List.map_filter_def)

lemma load_years_parallel_worker_fails:
  assumes files: "first_missing fs ld years = None"
      and cpus: "0 < cpu_count pl"
      and sched: "\<forall>i < length years. i \<in> set (completion_order pl)"
      and fails: "\<exists>y \<in> set years. isl (snd (load_year_worker pd fs (year_file ld y) y cols f dt))"
  shows "\<exists>y e. y \<in> set years
           \<and> snd (load_year_worker pd fs (year_file ld y) y cols f dt) = Inl e
           \<and> load_years_parallel pd pl fs ld years cols f dt
               = ([''Error loading year '' @ str_int y @ '': '' @ exc_str e], Inl e)"
proof -
  define futures where
    "futures = map (\<lambda>y. (y, snd (load_year_worker pd fs (year_file ld y) y cols f dt))) years"
  from fails obtain y0 e0 where y0: "y0 \<in> set years"
    and e0: "snd (load_year_worker pd fs (year_file ld y0) y0 cols f dt) = Inl e0"
    by (auto simp: isl_def)
  from y0 obtain i where i: "i < length years" "years ! i = y0"
    by (auto simp: in_set_conv_nth)
  then have "futures ! i = (y0, Inl e0)" using e0 by (simp add: futures_def)
  moreover have "futures ! i \<in> set (as_completed (completion_order pl) futures)"
    using i(1) sched by (intro as_completed_member) (simp_all add: futures_def)
  ultimately have "(y0, Inl e0) \<in> set (as_completed (completion_order pl) futures)" by simp
  from find_failure[OF this] obtain y e where
    f: "find (\<lambda>(y, r). isl r) (as_completed (completion_order pl) futures) = Some (y, Inl e)"
    and m: "(y, Inl e) \<in> set (as_completed (completion_order pl) futures)" by blast
  have "(y, Inl e) \<in> set futures"
    by (rule subsetD[OF as_completed_subset m])
  then obtain y' where "y' \<in> set years"
    and "(y, Inl e) = (y', snd (load_year_worker pd fs (year_file ld y') y' cols f dt))"
    unfolding futures_def by (auto simp: image_iff)
  then have yy: "y \<in> set years" "snd (load_year_worker pd fs (year_file ld y) y cols f dt) = Inl e"
    by simp_all
  have "years \<noteq> []" using y0 by auto
  then have w: "(min (length years) (cpu_count pl) = 0) = False" using cpus by (simp add: min_def)
  have s1: "submit_all fs ld years = Inr (map (\<lambda>y. (year_file ld y, y)) years)"
    by (rule submit_all_present[OF files])
  have fut: "map (\<lambda>(p, year). (year, snd (load_year_worker pd fs p year cols f dt)))
               (map (\<lambda>y. (year_file ld y, y)) years) = futures"
    unfolding futures_def by (induction years) simp_all
  have "load_years_parallel pd pl fs ld years cols f dt
          = ([''Error loading year '' @ str_int y @ '': '' @ exc_str e], Inl e)"
    by (simp only: load_years_parallel_def Let_def w if_False s1 sum.case fut
          collect_results_first_failure[OF f] prod.case)
  with yy show ?thesis by blast
qed

text \<open>
  C4. In a parallel load of more than one year in which every year has its file, every
  job completes and the worker of at least one year raises, \<open>load_years\<close> raises the
  exception of a worker that raised: after the line that opens the parallel load it
  prints the line that reports the year of that worker and raises its exception again.
  It returns no table, whatever the other workers returned.
\<close>

theorem parallel_failure_aborts:
  assumes "first_missing fs ld years = None"
      and "1 < length years"
      and "0 < cpu_count pl"
      and "\<forall>i < length years. i \<in> set (completion_order pl)"
      and "\<exists>y \<in> set years. isl (snd (load_year_worker pd fs (year_file ld y) y cols f dt))"
  shows "\<exists>y e. y \<in> set years
           \<and> snd (load_year_worker pd fs (year_file ld y) y cols f dt) = Inl e
           \<and> load_years pd pl fs ld years cols f True dt
               = ([''Loading '' @ str_nat (length years) @ '' years in parallel...'',
                   ''Error loading year '' @ str_int y @ '': '' @ exc_str e], Inl e)"
proof -
  from load_years_parallel_worker_fails[OF assms(1,3,4,5)]
  obtain y e where "y \<in> set years"
    and "snd (load_year_worker pd fs (year_file ld y) y cols f dt) = Inl e"
    and "load_years_parallel pd pl fs ld years cols f dt
               = ([''Error loading year '' @ str_int y @ '': '' @ exc_str e], Inl e)"
    by blast
  then show ?thesis using assms(2) by (auto simp: load_years_def)
qed


text \<open>The years 2019 and 2021 of the small directory; the file of 2021 is empty.\<close>

lemma demo_worker_2019:
  "snd (load_year_worker mini_pd demo_fs (year_file demo_loader 2019) 2019 None None None)
     = Inr \<lparr>df_columns = [''a'', ''b''],
            df_rows = [(0, [''1'', ''2'']), (1, [''3'', ''4'']), (2, [''5'', ''6''])]\<rparr>"
  by code_simp

lemma demo_worker_2021:
  "snd (load_year_worker mini_pd demo_fs (year_file demo_loader 2021) 2021 None None None)
     = Inl (Exception (LibraryError ''EmptyDataError'') ''No columns to parse from file'')"
  by code_simp

lemma demo_all_present: "first_missing demo_fs demo_loader [2019, 2021] = None"
  by code_simp

theorem parallel_failure_aborts_witness:
  "first_missing demo_fs demo_loader [2019, 2021] = None
   \<and> snd (load_year_worker mini_pd demo_fs (year_file demo_loader 2021) 2021 None None None)
       = Inl (Exception (LibraryError ''EmptyDataError'') ''No columns to parse from file'')
   \<and> load_years mini_pd demo_pool demo_fs demo_loader [2019, 2021] None None True None
       = ([''Loading 2 years in parallel...'',
           ''Error loading year 2021: No columns to parse from file''],
          Inl (Exception (LibraryError ''EmptyDataError'') ''No columns to parse from file''))"
proof -
  have h2: "1 < length [2019, 2021 :: int]" by simp
  have h3: "0 < cpu_count demo_pool" by (simp add: demo_pool_def)
  have h4: "\<forall>i < length [2019, 2021 :: int]. i \<in> set (completion_order demo_pool)"
    by (auto simp: demo_pool_def less_Suc_eq)
  have h5: "\<exists>y \<in> set [2019, 2021]. isl (snd (load_year_worker mini_pd demo_fs (year_file demo_loader y) y None None None))"
    using demo_worker_2021 by simp
  from parallel_failure_aborts[OF demo_all_present h2 h3 h4 h5]
  obtain y e where y: "y \<in> set [2019, 2021 :: int]"
    and w: "snd (load_year_worker mini_pd demo_fs (year_file demo_loader y) y None None None) = Inl e"
    and r: "load_years mini_pd demo_pool demo_fs demo_loader [2019, 2021] None None True None
               = ([''Loading '' @ str_nat (length [2019, 2021 :: int]) @ '' years in parallel...'',
                   ''Error loading year '' @ str_int y @ '': '' @ exc_str e], Inl e)"
    by blast
  have "y = 2021" using y w demo_worker_2019 by auto
  then have e: "e = Exception (LibraryError ''EmptyDataError'') ''No columns to parse from file''"
    using w demo_worker_2021 by simp
  have s1: "''Loading '' @ str_nat (length [2019, 2021 :: int]) @ '' years in parallel...''
              = ''Loading 2 years in parallel...''"
    by code_simp
  have s2: "''Error loading year '' @ str_int 2021 @ '': '' @ ''No columns to parse from file''
              = ''Error loading year 2021: No columns to parse from file''"
    by code_simp
  show ?thesis
    using r demo_all_present demo_worker_2021 unfolding \<open>y = 2021\<close> e exc_str.simps s1 s2
    by simp
qed

section \<open>Chunked iteration\<close>





lemma load_year_unfiltered_read:
  assumes "snd (load_year pd fs ld year cols None nrows dt) = Inr df"
  shows "\<exists>content. read_bytes fs (year_file ld year) = Some content
           \<and> pd_read_csv pd content cols nrows dt = Inr df"
proof (cases "read_bytes fs (year_file ld year)")
  case None
  then show ?thesis using assms
    by (simp add: load_year_def get_file_path_def path_exists_def)
next
  case (Some content)
  then show ?thesis using assms load_year_result[OF Some, of pd cols None nrows dt]
    by (simp add: apply_filter_def split: sum.splits)
qed







section \<open>Sampling\<close>

lemma sample_year_result:
  assumes "read_bytes fs (year_file ld year) = Some content"
  shows "snd (sample_year pd fs ld year n cols) =
           (case pd_read_csv pd content cols None None of
              Inl e \<Rightarrow> Inl e
            | Inr df \<Rightarrow> if n < int (df_len df) then df_sample pd df n 42 else Inr df)"
  using assms
  by (simp add: sample_year_def get_file_path_def path_exists_def read_csv_def Let_def
           split: sum.splits)

text \<open>
  C6. For a year that the unfiltered read loads to a table: \<open>sample_year\<close> returns the
  table unchanged when it has at most \<open>n\<close> rows, and otherwise what the library's
  \<open>sample\<close> returns for \<open>n\<close> and the fixed seed 42, so that the same inputs give the
  same sample. For a sample size \<open>n \<ge> 0\<close> and a library whose \<open>sample\<close> draws
  \<open>n\<close> rows without replacement, the result has exactly \<open>n\<close> rows, all of them
  rows of the table.
\<close>

theorem sample_year_subset:
  assumes "snd (load_year pd fs ld year cols None None None) = Inr df"
  shows "(int (df_len df) \<le> n \<longrightarrow> snd (sample_year pd fs ld year n cols) = Inr df)
       \<and> (n < int (df_len df) \<longrightarrow> snd (sample_year pd fs ld year n cols) = df_sample pd df n 42)
       \<and> (sample_contract pd \<and> 0 \<le> n \<and> n < int (df_len df) \<longrightarrow>
            (\<exists>s. snd (sample_year pd fs ld year n cols) = Inr s
                \<and> int (df_len s) = n
                \<and> mset (df_rows s) \<subseteq># mset (df_rows df)
                \<and> df_columns s = df_columns df))"
proof -
  from load_year_unfiltered_read[OF assms] obtain content where
    c: "read_bytes fs (year_file ld year) = Some content"
    and r: "pd_read_csv pd content cols None None = Inr df" by blast
  have s: "snd (sample_year pd fs ld year n cols)
             = (if n < int (df_len df) then df_sample pd df n 42 else Inr df)"
    by (simp add: sample_year_result[OF c] r)
  have t: "\<exists>s. df_sample pd df n 42 = Inr s \<and> int (df_len s) = n
               \<and> mset (df_rows s) \<subseteq># mset (df_rows df) \<and> df_columns s = df_columns df"
    if "sample_contract pd" "0 \<le> n" "n < int (df_len df)"
    using that unfolding sample_contract_def by blast
  show ?thesis using s t by auto
qed

text \<open>The year 2019 of the small directory, with three rows: samples of three and of two.\<close>

lemma mini_sample_contract: "sample_contract mini_pd"
proof -
  have "mset (take m xs) \<subseteq># mset xs" for m and xs :: "'a list"
    by (metis append_take_drop_id mset_append mset_subset_eq_add_left)
  then have "mset (take m (rev xs)) \<subseteq># mset xs" for m and xs :: "'a list"
    by (metis mset_rev)
  then show ?thesis
    by (auto simp: sample_contract_def mini_pd_def mini_sample_def df_len_def)
qed

theorem sample_year_subset_witness:
  "sample_contract mini_pd
   \<and> snd (load_year mini_pd demo_fs demo_loader 2019 None None None None)
       = Inr \<lparr>df_columns = [''a'', ''b''],
              df_rows = [(0, [''1'', ''2'']), (1, [''3'', ''4'']), (2, [''5'', ''6''])]\<rparr>
   \<and> snd (sample_year mini_pd demo_fs demo_loader 2019 3 None)
       = Inr \<lparr>df_columns = [''a'', ''b''],
              df_rows = [(0, [''1'', ''2'']), (1, [''3'', ''4'']), (2, [''5'', ''6''])]\<rparr>
   \<and> snd (sample_year mini_pd demo_fs demo_loader 2019 2 None)
       = Inr \<lparr>df_columns = [''a'', ''b''], df_rows = [(2, [''5'', ''6'']), (1, [''3'', ''4''])]\<rparr>
   \<and> mset [(2 :: nat, [''5'', ''6'']), (1, [''3'', ''4''])]
       \<subseteq># mset [(0, [''1'', ''2'']), (1, [''3'', ''4'']), (2, [''5'', ''6''])]"
proof -
  let ?df = "\<lparr>df_columns = [''a'', ''b''],
              df_rows = [(0 :: nat, [''1'', ''2'']), (1, [''3'', ''4'']), (2, [''5'', ''6''])]\<rparr>"
  note t = sample_year_subset[OF demo_load_2019]
  have l: "df_len ?df = 3" by (simp add: df_len_def)
  have a: "snd (sample_year mini_pd demo_fs demo_loader 2019 3 None) = Inr ?df"
    using t[of 3] l by simp
  have e: "df_sample mini_pd ?df 2 42
             = Inr \<lparr>df_columns = [''a'', ''b''], df_rows = [(2, [''5'', ''6'']), (1, [''3'', ''4''])]\<rparr>"
    by code_simp
  have b: "snd (sample_year mini_pd demo_fs demo_loader 2019 2 None)
             = Inr \<lparr>df_columns = [''a'', ''b''], df_rows = [(2, [''5'', ''6'']), (1, [''3'', ''4''])]\<rparr>"
    using t[of 2] l e by simp
  have "\<exists>s. snd (sample_year mini_pd demo_fs demo_loader 2019 2 None) = Inr s
            \<and> int (df_len s) = 2
            \<and> mset (df_rows s) \<subseteq># mset (df_rows ?df)
            \<and> df_columns s = df_columns ?df"
    using t[of 2, THEN conjunct2, THEN conjunct2] mini_sample_contract l by simp
  then obtain s where
    "snd (sample_year mini_pd demo_fs demo_loader 2019 2 None) = Inr s"
    and "mset (df_rows s) \<subseteq># mset (df_rows ?df)" by blast
  with b have "mset [(2 :: nat, [''5'', ''6'']), (1, [''3'', ''4''])]
       \<subseteq># mset [(0, [''1'', ''2'']), (1, [''3'', ''4'']), (2, [''5'', ''6''])]"
    by auto
  then show ?thesis using a b mini_sample_contract demo_load_2019 by simp
qed

end
